theory Spec2Isabelle
  imports Complex_Main "HOL-Library.AList" "HOL-Library.Sublist"
begin

section \<open>Voice emotion recognition service: the predict endpoint\<close>

text \<open>
  A shallow embedding of \<^verbatim>\<open>services/voice-emotion-recognition/app/main.py\<close>.
  The handler \<^verbatim>\<open>predict_emotion\<close> is one Python function; the model keeps its steps in
  the source's order and names each after the variable the step assigns.

  Conventions:
  \<^item> a Python \<^verbatim>\<open>str\<close> is a \<open>string\<close>; a \<open>char\<close> is read as the code point of the same
    number, so the strings of the model are those over U+0000 .. U+00FF;
  \<^item> a Python \<^verbatim>\<open>float\<close> is a \<open>real\<close>: the handler only moves floats around
    (\<^verbatim>\<open>float()\<close> of a float or of a numpy scalar keeps the value), it does no arithmetic;
  \<^item> a raised exception is the \<open>Inl\<close> of a sum, a returned value the \<open>Inr\<close>;
  \<^item> the objects the external classifier hands back are dynamically typed. Each is
    modelled by exactly what the handler observes of it: whether it has the attribute
    the handler tests for, what the call made on it returns or raises, and what
    \<^verbatim>\<open>str()\<close> or \<^verbatim>\<open>float()\<close> of it gives;
  \<^item> the calls to \<^verbatim>\<open>logger\<close> are left out: they change neither what the handler returns
    nor the files.
\<close>

subsection \<open>Exceptions\<close>

text \<open>
  \<open>HTTPException\<close> is FastAPI's, with its \<^verbatim>\<open>status_code\<close> and \<^verbatim>\<open>detail\<close>; the framework
  turns it into the response of that status whose body is \<^verbatim>\<open>{"detail": detail}\<close>.
  \<open>PyException\<close> is any other instance of \<^verbatim>\<open>Exception\<close>, carrying \<^verbatim>\<open>str(e)\<close>.
  \<open>PyBaseException\<close> is an exception that is not an instance of \<^verbatim>\<open>Exception\<close>
  (\<^verbatim>\<open>KeyboardInterrupt\<close>, \<^verbatim>\<open>SystemExit\<close>, \<^verbatim>\<open>asyncio.CancelledError\<close>), carrying its class name.
\<close>

datatype pyexc =
    HTTPException nat string
  | PyException string
  | PyBaseException string

subsection \<open>Python string operations used by the handler\<close>

text \<open>\<^verbatim>\<open>str.isspace\<close> on one character, for code points below 256: TAB .. CR, FS .. US,
  SPACE, NEL (U+0085) and NBSP (U+00A0).\<close>

definition is_space :: "char \<Rightarrow> bool" where
  "is_space c =
     (let n = (of_char c :: nat)
      in (9 \<le> n \<and> n \<le> 13) \<or> (28 \<le> n \<and> n \<le> 32) \<or> n = 133 \<or> n = 160)"

text \<open>\<^verbatim>\<open>s.strip(chars)\<close> removes, from both ends, the characters that belong to the set.\<close>

definition strip_where :: "(char \<Rightarrow> bool) \<Rightarrow> string \<Rightarrow> string" where
  "strip_where P s = rev (dropWhile P (rev (dropWhile P s)))"

definition py_strip :: "string \<Rightarrow> string" where
  "py_strip s = strip_where is_space s"

definition py_strip_chars :: "string \<Rightarrow> string \<Rightarrow> string" where
  "py_strip_chars chars s = strip_where (\<lambda>c. c \<in> set chars) s"

text \<open>\<^verbatim>\<open>str.lower\<close>: A .. Z, and the Latin-1 capitals U+00C0 .. U+00DE other than the
  multiplication sign U+00D7, move 32 code points up; every other character stays.\<close>

definition lower_char :: "char \<Rightarrow> char" where
  "lower_char c =
     (let n = (of_char c :: nat)
      in if (65 \<le> n \<and> n \<le> 90) \<or> (192 \<le> n \<and> n \<le> 222 \<and> n \<noteq> 215)
         then char_of (n + 32) else c)"

definition py_lower :: "string \<Rightarrow> string" where
  "py_lower s = map lower_char s"

subsection \<open>Module constants\<close>

definition EMOTION_LABELS :: "string list" where
  "EMOTION_LABELS = [''angry'', ''happy'', ''neutral'', ''sad'']"

text \<open>The dict literal \<^verbatim>\<open>emotion_mapping\<close>, in the source's order.\<close>

definition emotion_mapping :: "(string \<times> string) list" where
  "emotion_mapping =
     [(''hap'', ''happy''),
      (''sad'', ''sad''),
      (''ang'', ''angry''),
      (''neu'', ''neutral''),
      (''exc'', ''happy''),
      (''fru'', ''sad''),
      (''fea'', ''sad''),
      (''sur'', ''happy''),
      (''xxx'', ''neutral'')]"

text \<open>\<^verbatim>\<open>d.get(k, default)\<close>.\<close>

definition dict_get :: "('k \<times> 'v) list \<Rightarrow> 'k \<Rightarrow> 'v \<Rightarrow> 'v" where
  "dict_get d k dflt = (case map_of d k of Some v \<Rightarrow> v | None \<Rightarrow> dflt)"

subsection \<open>What the classifier returns\<close>

text \<open>
  \<^verbatim>\<open>text_lab\<close>, as lines 115-120 look at it:
  \<^item> \<open>HasItem r\<close>: an object with an \<^verbatim>\<open>item\<close> attribute; \<open>r\<close> is what \<^verbatim>\<open>text_lab.item()\<close>
    does: it raises, or it returns a \<^verbatim>\<open>str\<close> (\<open>ItemStr\<close>), or it returns an object that is
    not a \<^verbatim>\<open>str\<close> (\<open>ItemOther\<close>, with the name of its type, which has no \<^verbatim>\<open>strip\<close>);
  \<^item> \<open>PyList xs\<close>, \<open>PyTuple xs\<close>: a list or a tuple; each element is given by the text
    \<^verbatim>\<open>str()\<close> returns for it;
  \<^item> \<open>PyObject s\<close>: anything else, \<open>s\<close> being \<^verbatim>\<open>str(text_lab)\<close>; a plain \<^verbatim>\<open>str\<close> is this
    case, with \<open>s\<close> the string itself.
\<close>

datatype item_value = ItemStr string | ItemOther string

datatype text_lab =
    HasItem "pyexc + item_value"
  | PyList "string list"
  | PyTuple "string list"
  | PyObject string

text \<open>
  An object as \<^verbatim>\<open>float()\<close> sees it: \<open>Number x\<close> converts to \<open>x\<close>; for \<open>NotNumber msg\<close> the
  conversion raises (\<^verbatim>\<open>TypeError\<close> or \<^verbatim>\<open>ValueError\<close>) with \<^verbatim>\<open>str(e) = msg\<close>.
  \<^verbatim>\<open>score\<close>, as lines 149-152 look at it, either has an \<^verbatim>\<open>item\<close> attribute (and the call
  raises or returns an object) or is such an object itself.
\<close>

datatype floatable = Number real | NotNumber string

datatype score = ScoreItem "pyexc + floatable" | ScorePlain floatable

text \<open>
  A numpy array of floats, by nesting: \<open>Scalar\<close> is a 0-dimensional array (or one
  element), \<open>Array\<close> the sequence of sub-arrays along the first axis; in a numpy
  array these sub-arrays all have the same shape.
  \<^verbatim>\<open>out_prob\<close>, as lines 155-161 look at it: \<open>HasNumpy r\<close> has a \<^verbatim>\<open>numpy\<close> attribute (a
  torch tensor does) and \<open>r\<close> is what \<^verbatim>\<open>out_prob.numpy()\<close> does; \<open>TorchTensor r\<close> is an
  instance of \<^verbatim>\<open>torch.Tensor\<close> without that attribute, \<open>r\<close> being what \<^verbatim>\<open>.numpy()\<close> does
  on it; \<open>NoArray\<close> is anything else (a Python list, a numpy array, \<^verbatim>\<open>None\<close>).
\<close>

datatype ndarray = Scalar real | Array "ndarray list"

datatype out_prob =
    HasNumpy "pyexc + ndarray"
  | TorchTensor "pyexc + ndarray"
  | NoArray

text \<open>The four values unpacked from \<^verbatim>\<open>classifier.classify_file(temp_path)\<close>:
  \<^verbatim>\<open>out_prob, score, index, text_lab\<close>. The handler never reads \<^verbatim>\<open>index\<close>.\<close>

type_synonym classifier_output = "out_prob \<times> score \<times> int \<times> text_lab"

subsection \<open>Numpy operations used by the handler\<close>

text \<open>\<^verbatim>\<open>a.squeeze()\<close> drops every axis of length one.\<close>

fun squeeze :: "ndarray \<Rightarrow> ndarray" where
  "squeeze (Scalar x) = Scalar x"
| "squeeze (Array [a]) = squeeze a"
| "squeeze (Array xs) = Array (map squeeze xs)"

text \<open>\<^verbatim>\<open>len(a)\<close> raises on a 0-dimensional array.\<close>

fun np_len :: "ndarray \<Rightarrow> pyexc + nat" where
  "np_len (Scalar x) = Inl (PyException ''len() of unsized object'')"
| "np_len (Array xs) = Inr (length xs)"

text \<open>\<^verbatim>\<open>float(a[i])\<close> for an index the caller has checked against \<^verbatim>\<open>len(a)\<close>: the element
  of a one-dimensional array converts; a sub-array of a squeezed array has no axis of
  length one, so it is not of size one and the conversion raises \<^verbatim>\<open>TypeError\<close>.
  An index that is out of range raises \<^verbatim>\<open>IndexError\<close>.\<close>

fun np_float_at :: "ndarray \<Rightarrow> nat \<Rightarrow> pyexc + real" where
  "np_float_at (Scalar x) i = Inl (PyException ''invalid index to scalar variable.'')"
| "np_float_at (Array xs) i =
     (if i < length xs
      then (case xs ! i of
              Scalar x \<Rightarrow> Inr x
            | Array ys \<Rightarrow>
                Inl (PyException ''only length-1 arrays can be converted to Python scalars''))
      else Inl (PyException ''index out of bounds''))"

subsection \<open>Normalising the classifier's output (lines 113-177)\<close>

text \<open>Lines 115-120, together with the \<^verbatim>\<open>.strip()\<close> of line 123 that needs a \<^verbatim>\<open>str\<close>: the
  result of \<^verbatim>\<open>item()\<close> is used as it is, without \<^verbatim>\<open>str()\<close>, so an object that is not a
  \<^verbatim>\<open>str\<close> raises \<^verbatim>\<open>AttributeError\<close> at \<^verbatim>\<open>emotion_raw.strip()\<close>.\<close>

fun emotion_raw_of :: "text_lab \<Rightarrow> pyexc + string" where
  "emotion_raw_of (HasItem (Inl e)) = Inl e"
| "emotion_raw_of (HasItem (Inr (ItemStr s))) = Inr s"
| "emotion_raw_of (HasItem (Inr (ItemOther ty))) =
     Inl (PyException ([CHR 0x27] @ ty @ [CHR 0x27] @ '' object has no attribute '' @
                       [CHR 0x27] @ ''strip'' @ [CHR 0x27]))"
| "emotion_raw_of (PyList xs) = Inr (if length xs > 0 then hd xs else ''neutral'')"
| "emotion_raw_of (PyTuple xs) = Inr (if length xs > 0 then hd xs else ''neutral'')"
| "emotion_raw_of (PyObject s) = Inr s"

text \<open>Line 123: \<^verbatim>\<open>emotion_raw.strip().strip("[]'\"")\<close>.\<close>

definition clean_label :: "string \<Rightarrow> string" where
  "clean_label s = py_strip_chars [CHR ''['', CHR '']'', CHR 0x27, CHR 0x22] (py_strip s)"

text \<open>Lines 138-146, on the cleaned \<^verbatim>\<open>emotion_raw\<close>.\<close>

definition emotion_of :: "string \<Rightarrow> string" where
  "emotion_of emotion_raw =
     (let emotion =
            (if emotion_raw \<in> set EMOTION_LABELS then emotion_raw
             else dict_get emotion_mapping (py_lower emotion_raw) emotion_raw)
      in if emotion \<notin> set EMOTION_LABELS then ''neutral'' else emotion)"

text \<open>Lines 149-152.\<close>

fun py_float :: "floatable \<Rightarrow> pyexc + real" where
  "py_float (Number x) = Inr x"
| "py_float (NotNumber msg) = Inl (PyException msg)"

fun confidence_of :: "score \<Rightarrow> pyexc + real" where
  "confidence_of (ScoreItem (Inl e)) = Inl e"
| "confidence_of (ScoreItem (Inr v)) = py_float v"
| "confidence_of (ScorePlain v) = py_float v"

text \<open>Lines 155-161.\<close>

fun scores_array_of :: "out_prob \<Rightarrow> pyexc + ndarray" where
  "scores_array_of (HasNumpy (Inl e)) = Inl e"
| "scores_array_of (HasNumpy (Inr a)) = Inr (squeeze a)"
| "scores_array_of (TorchTensor (Inl e)) = Inl e"
| "scores_array_of (TorchTensor (Inr a)) = Inr (squeeze a)"
| "scores_array_of NoArray = Inr (Array (replicate (length EMOTION_LABELS) (Scalar 0.25)))"

text \<open>Lines 164-169: the loop over \<^verbatim>\<open>enumerate(EMOTION_LABELS)\<close>, filling the dict
  \<^verbatim>\<open>emotion_scores\<close>. A Python dict keeps its keys in the order of their first
  assignment, which is what \<open>AList.update\<close> does on an association list.\<close>

fun emotion_scores_loop ::
  "ndarray \<Rightarrow> (nat \<times> string) list \<Rightarrow> (string \<times> real) list \<Rightarrow> pyexc + (string \<times> real) list" where
  "emotion_scores_loop scores_array [] emotion_scores = Inr emotion_scores"
| "emotion_scores_loop scores_array ((i, label) # rest) emotion_scores =
     (case np_len scores_array of
        Inl e \<Rightarrow> Inl e
      | Inr n \<Rightarrow>
          if i < n
          then (case np_float_at scores_array i of
                  Inl e \<Rightarrow> Inl e
                | Inr x \<Rightarrow>
                    emotion_scores_loop scores_array rest (AList.update label x emotion_scores))
          else emotion_scores_loop scores_array rest (AList.update label 0.0 emotion_scores))"

definition emotion_scores_of :: "ndarray \<Rightarrow> pyexc + (string \<times> real) list" where
  "emotion_scores_of scores_array =
     emotion_scores_loop scores_array (enumerate 0 EMOTION_LABELS) []"

text \<open>The response body of a successful call.\<close>

record prediction =
  emotion :: string
  confidence :: real
  scores :: "(string \<times> real) list"

text \<open>Lines 113-177 in sequence: the first step that raises ends the block.\<close>

fun normalize_output :: "classifier_output \<Rightarrow> pyexc + prediction" where
  "normalize_output (out_prob, score, index, text_lab) =
     (case emotion_raw_of text_lab of
        Inl e \<Rightarrow> Inl e
      | Inr emotion_raw \<Rightarrow>
          (case confidence_of score of
             Inl e \<Rightarrow> Inl e
           | Inr conf \<Rightarrow>
               (case scores_array_of out_prob of
                  Inl e \<Rightarrow> Inl e
                | Inr scores_array \<Rightarrow>
                    (case emotion_scores_of scores_array of
                       Inl e \<Rightarrow> Inl e
                     | Inr emotion_scores \<Rightarrow>
                         Inr \<lparr>emotion = emotion_of (clean_label emotion_raw),
                              confidence = conf,
                              scores = emotion_scores\<rparr>))))"

subsection \<open>The world outside the handler\<close>

text \<open>
  The handler's effects are on the file system and on its collaborators. The state is
  the files that exist, with their contents, and the log of the external calls the
  handler has made so far, oldest first.
\<close>

datatype event =
    ReadUpload
  | OpenTemp
  | WriteTemp string
  | ClassifyFile string
  | Unlink string

record world =
  files :: "string \<rightharpoonup> string"
  events :: "event list"

definition log_event :: "event \<Rightarrow> world \<Rightarrow> world" where
  "log_event ev w = w\<lparr>events := events w @ [ev]\<rparr>"

text \<open>
  What the environment does during one request, call by call:
  \<^item> \<open>read_result\<close>: \<^verbatim>\<open>await audio_file.read()\<close> raises or returns the uploaded bytes;
  \<^item> \<open>tempfile_result\<close>: \<^verbatim>\<open>tempfile.NamedTemporaryFile(suffix=".wav", delete=False)\<close> raises, or
    creates an empty file and returns its path (\<^verbatim>\<open>temp_file.name\<close>);
  \<^item> \<open>write_result\<close>: \<^verbatim>\<open>temp_file.write(contents)\<close> and the close at the end of the \<^verbatim>\<open>with\<close>
    block raise (\<open>Some e\<close>) or leave the bytes in the file (\<open>None\<close>);
  \<^item> \<open>unlink_result\<close>: \<^verbatim>\<open>os.unlink(temp_path)\<close> raises (\<open>Some e\<close>, the file stays) or removes
    the file (\<open>None\<close>).
\<close>

record request =
  read_result :: "pyexc + string"
  tempfile_result :: "pyexc + string"
  write_result :: "pyexc option"
  unlink_result :: "pyexc option"

text \<open>The loaded model: \<^verbatim>\<open>classify_file(path)\<close> reads the file at the path and raises or
  returns its four values. The module global \<^verbatim>\<open>classifier\<close> is \<^verbatim>\<open>None\<close> or such an object.\<close>

type_synonym classifier_obj = "string \<Rightarrow> (string \<rightharpoonup> string) \<Rightarrow> pyexc + classifier_output"

definition os_unlink :: "pyexc option \<Rightarrow> string \<Rightarrow> world \<Rightarrow> (pyexc + unit) \<times> world" where
  "os_unlink outcome path w =
     (case outcome of
        Some e \<Rightarrow> (Inl e, log_event (Unlink path) w)
      | None \<Rightarrow> (Inr (), log_event (Unlink path) (w\<lparr>files := (files w)(path := None)\<rparr>)))"

subsection \<open>The handler \<^verbatim>\<open>predict_emotion\<close> (lines 77-189)\<close>

text \<open>Lines 108-180, the inner \<^verbatim>\<open>try\<close> with its \<^verbatim>\<open>finally\<close>: the body is the
  classification and the normalisation; \<^verbatim>\<open>os.unlink(temp_path)\<close> runs however the body
  ends. As in Python, an exception raised by the \<^verbatim>\<open>finally\<close> clause replaces the body's
  outcome, be it a value or an exception.\<close>

definition classify_and_cleanup ::
  "classifier_obj \<Rightarrow> request \<Rightarrow> string \<Rightarrow> world \<Rightarrow> (pyexc + prediction) \<times> world" where
  "classify_and_cleanup clf rq temp_path w =
     (let w1 = log_event (ClassifyFile temp_path) w;
          body = (case clf temp_path (files w1) of
                    Inl e \<Rightarrow> Inl e
                  | Inr out \<Rightarrow> normalize_output out)
      in case os_unlink (unlink_result rq) temp_path w1 of
           (Inl e, w2) \<Rightarrow> (Inl e, w2)
         | (Inr u, w2) \<Rightarrow> (body, w2))"

text \<open>Lines 99-180, the outer \<^verbatim>\<open>try\<close> block.\<close>

definition predict_try ::
  "classifier_obj \<Rightarrow> request \<Rightarrow> world \<Rightarrow> (pyexc + prediction) \<times> world" where
  "predict_try clf rq w =
     (let w1 = log_event ReadUpload w
      in case read_result rq of
           Inl e \<Rightarrow> (Inl e, w1)
         | Inr contents \<Rightarrow>
             (let w2 = log_event OpenTemp w1
              in case tempfile_result rq of
                   Inl e \<Rightarrow> (Inl e, w2)
                 | Inr temp_path \<Rightarrow>
                     (let w3 = log_event (WriteTemp temp_path)
                                 (w2\<lparr>files := (files w2)(temp_path \<mapsto> [])\<rparr>)
                      in case write_result rq of
                           Some e \<Rightarrow> (Inl e, w3)
                         | None \<Rightarrow>
                             classify_and_cleanup clf rq temp_path
                               (w3\<lparr>files := (files w3)(temp_path \<mapsto> contents)\<rparr>))))"

text \<open>Lines 182-189, the \<^verbatim>\<open>except\<close> clauses of the outer \<^verbatim>\<open>try\<close>: an \<^verbatim>\<open>HTTPException\<close> is
  raised again as it is, any other \<^verbatim>\<open>Exception\<close> becomes the 500; an exception that is not
  an \<^verbatim>\<open>Exception\<close> matches neither clause and propagates.\<close>

fun except_clauses :: "pyexc + prediction \<Rightarrow> pyexc + prediction" where
  "except_clauses (Inr r) = Inr r"
| "except_clauses (Inl (HTTPException status_code detail)) =
     Inl (HTTPException status_code detail)"
| "except_clauses (Inl (PyException str_e)) =
     Inl (HTTPException 500 (''Prediction failed: '' @ str_e))"
| "except_clauses (Inl (PyBaseException cls)) = Inl (PyBaseException cls)"

text \<open>Lines 93-189.\<close>

definition predict_emotion ::
  "classifier_obj option \<Rightarrow> request \<Rightarrow> world \<Rightarrow> (pyexc + prediction) \<times> world" where
  "predict_emotion classifier rq w =
     (case classifier of
        None \<Rightarrow>
          (Inl (HTTPException 503
             ''Model not loaded. Service is initializing or failed to load model.''), w)
      | Some clf \<Rightarrow>
          (case predict_try clf rq w of (r, w') \<Rightarrow> (except_clauses r, w')))"

subsection \<open>Concrete requests used by the scenarios below\<close>

text \<open>An empty file system, and a request whose upload, temp file, write and unlink all
  go through.\<close>

definition example_world :: world where
  "example_world = \<lparr>files = Map.empty, events = []\<rparr>"

definition example_request :: request where
  "example_request =
     \<lparr>read_result = Inr ''RIFF'',
      tempfile_result = Inr ''/tmp/tmpab12cd.wav'',
      write_result = None,
      unlink_result = None\<rparr>"

text \<open>The same request, except that \<^verbatim>\<open>os.unlink\<close> raises \<^verbatim>\<open>PermissionError\<close>.\<close>

definition unlink_denied_request :: request where
  "unlink_denied_request =
     example_request\<lparr>unlink_result :=
       Some (PyException
         (''[Errno 13] Permission denied: '/tmp/tmpab12cd.wav'' @ [CHR 0x27]))\<rparr>"

text \<open>The same request, except that the client goes away during the upload and the
  \<^verbatim>\<open>await\<close> is cancelled.\<close>

definition cancelled_request :: request where
  "cancelled_request =
     example_request\<lparr>read_result := Inl (PyBaseException ''CancelledError'')\<rparr>"

text \<open>A classifier that answers every file with the given four values, and one whose
  \<^verbatim>\<open>classify_file\<close> raises \<^verbatim>\<open>RuntimeError("boom")\<close>.\<close>

definition returning_classifier :: "classifier_output \<Rightarrow> classifier_obj" where
  "returning_classifier out = (\<lambda>path fs. Inr out)"

definition raising_classifier :: classifier_obj where
  "raising_classifier = (\<lambda>path fs. Inl (PyException ''boom''))"

text \<open>A tensor holding the score vector of the spec's scenario, of shape (1, 4) as a
  batch of one.\<close>

definition scenario_out_prob :: out_prob where
  "scenario_out_prob =
     HasNumpy (Inr (Array [Array [Scalar 0.82, Scalar 0.05, Scalar 0.08, Scalar 0.05]]))"

section \<open>Properties\<close>

subsection \<open>Evaluation and case-analysis lemmas\<close>

lemmas char_eval = is_space_def lower_char_def char_of_def bit_Suc_0_iff

lemmas label_eval = emotion_of_def EMOTION_LABELS_def emotion_mapping_def dict_get_def
  py_lower_def clean_label_def py_strip_def py_strip_chars_def strip_where_def

lemmas handler_defs = predict_emotion_def predict_try_def classify_and_cleanup_def
  os_unlink_def log_event_def

lemmas fixture_defs = example_world_def example_request_def unlink_denied_request_def
  cancelled_request_def returning_classifier_def raising_classifier_def scenario_out_prob_def

lemma emotion_of_canonical: "emotion_of s \<in> set EMOTION_LABELS"
  by (simp add: emotion_of_def Let_def) (simp add: EMOTION_LABELS_def)

lemma emotion_of_unmatched:
  assumes "s \<notin> set EMOTION_LABELS" and "py_lower s \<notin> fst ` set emotion_mapping"
  shows "emotion_of s = ''neutral''"
proof -
  from assms(2) have "map_of emotion_mapping (py_lower s) = None"
    by (simp only: map_of_eq_None_iff not_False_eq_True)
  with assms(1) show ?thesis
    by (simp add: emotion_of_def dict_get_def)
qed

text \<open>A call returns a prediction only when every step before it went through, and the
  prediction is then the normalised output of the classifier.\<close>

lemma predict_emotion_Inr:
  assumes "predict_emotion classifier rq w = (Inr r, w')"
  shows "\<exists>clf contents p out.
           classifier = Some clf \<and> read_result rq = Inr contents \<and>
           tempfile_result rq = Inr p \<and> write_result rq = None \<and>
           unlink_result rq = None \<and>
           clf p ((files w)(p \<mapsto> contents)) = Inr out \<and> normalize_output out = Inr r"
proof -
  have ec: "\<And>x. except_clauses x = Inr r \<Longrightarrow> x = Inr r"
    by (erule except_clauses.elims) simp_all
  from assms show ?thesis
    by (auto simp add: handler_defs Let_def simp del: normalize_output.simps
          dest!: ec split: option.splits sum.splits prod.splits)
qed

lemma normalize_output_Inr:
  assumes "normalize_output (out_prob, score, index, text_lab) = Inr r"
  shows "\<exists>raw a. emotion_raw_of text_lab = Inr raw \<and>
           confidence_of score = Inr (confidence r) \<and>
           scores_array_of out_prob = Inr a \<and>
           emotion_scores_of a = Inr (scores r) \<and>
           emotion r = emotion_of (clean_label raw)"
  using assms by (auto split: sum.splits)

lemma emotion_scores_keys:
  "emotion_scores_of a = Inr d \<Longrightarrow> map fst d = [''angry'', ''happy'', ''neutral'', ''sad'']"
  by (auto simp add: emotion_scores_of_def EMOTION_LABELS_def split: sum.splits if_splits)

lemma emotion_scores_default:
  assumes "emotion_scores_of a = Inr d" and "np_len a = Inr n" and "n \<le> i" and "i < 4"
  shows "map_of d (EMOTION_LABELS ! i) = Some 0"
proof -
  from \<open>i < 4\<close> consider "i = 0" | "i = 1" | "i = 2" | "i = 3" by linarith
  then show ?thesis using assms(1,2,3)
    by cases (auto simp add: emotion_scores_of_def EMOTION_LABELS_def
                split: sum.splits if_splits)
qed

lemma emotion_scores_uniform:
  "emotion_scores_of (Array (replicate (length EMOTION_LABELS) (Scalar 0.25))) =
     Inr [(''angry'', 0.25), (''happy'', 0.25), (''neutral'', 0.25), (''sad'', 0.25)]"
  by (simp add: emotion_scores_of_def EMOTION_LABELS_def numeral_eq_Suc)

subsection \<open>The label table\<close>

text \<open>
  Claim C4. The label-mapping step (lines 126-146) maps each of the four canonical labels
  to itself, and each short code of the table to its canonical label: hap, exc and sur to
  happy; sad, fru and fea to sad; ang to angry; neu and xxx to neutral.
\<close>

theorem label_mapping_table:
  "emotion_of ''angry'' = ''angry'' \<and> emotion_of ''happy'' = ''happy'' \<and>
   emotion_of ''neutral'' = ''neutral'' \<and> emotion_of ''sad'' = ''sad'' \<and>
   emotion_of ''hap'' = ''happy'' \<and> emotion_of ''exc'' = ''happy'' \<and>
   emotion_of ''sur'' = ''happy'' \<and>
   emotion_of ''fru'' = ''sad'' \<and> emotion_of ''fea'' = ''sad'' \<and>
   emotion_of ''ang'' = ''angry'' \<and>
   emotion_of ''neu'' = ''neutral'' \<and> emotion_of ''xxx'' = ''neutral''"
  by (simp add: label_eval char_eval)

subsection \<open>The handler without a model\<close>

text \<open>
  Claim C6. While the classifier handle is unset, every predict request raises the
  \<open>HTTPException\<close> of status 503 whose detail starts with "Model not loaded", and nothing
  else happens: the world after the call is the world before it, so no upload was read,
  no temp file was made and no inference ran, whatever the request.
\<close>

theorem model_not_loaded:
  "predict_emotion None rq w =
     (Inl (HTTPException 503
        ''Model not loaded. Service is initializing or failed to load model.''), w) \<and>
   prefix ''Model not loaded''
     ''Model not loaded. Service is initializing or failed to load model.'' \<and>
   events (snd (predict_emotion None rq w)) = events w \<and>
   files (snd (predict_emotion None rq w)) = files w"
  by (simp add: predict_emotion_def)

text \<open>A call that gets as far as the inference step: what it returns and what it leaves
  behind, in terms of the outcomes of the classifier and of \<^verbatim>\<open>os.unlink\<close>.\<close>

lemma predict_emotion_reaches:
  assumes "read_result rq = Inr contents" and "tempfile_result rq = Inr p"
    and "write_result rq = None"
  shows "predict_emotion (Some clf) rq w =
     (except_clauses
        (case unlink_result rq of
           Some e \<Rightarrow> Inl e
         | None \<Rightarrow> (case clf p ((files w)(p \<mapsto> contents)) of
                      Inl e \<Rightarrow> Inl e
                    | Inr out \<Rightarrow> normalize_output out)),
      \<lparr>files = (case unlink_result rq of
                  Some e \<Rightarrow> (files w)(p \<mapsto> contents)
                | None \<Rightarrow> (files w)(p := None)),
       events = events w @
         [ReadUpload, OpenTemp, WriteTemp p, ClassifyFile p, Unlink p]\<rparr>)"
  using assms
  by (simp add: handler_defs Let_def del: normalize_output.simps
        split: option.splits sum.splits)

subsection \<open>The scenario of the spec: label "hap", score 0.82\<close>

lemma emotion_scores_positional:
  "emotion_scores_of (Array (map Scalar xs)) =
     Inr [(''angry'', if 0 < length xs then xs ! 0 else 0.0),
          (''happy'', if 1 < length xs then xs ! 1 else 0.0),
          (''neutral'', if 2 < length xs then xs ! 2 else 0.0),
          (''sad'', if 3 < length xs then xs ! 3 else 0.0)]"
  by (auto simp add: emotion_scores_of_def EMOTION_LABELS_def numeral_2_eq_2 numeral_3_eq_3)

text \<open>
  Claim C1, as the code has it. When the handle is set, the upload, the temp file and
  its unlink go through, and the classifier returns a raw label that reads \<open>raw\<close>, a top
  score \<open>conf\<close> and a tensor whose squeezed values are the vector \<open>xs\<close>, the response has
  the emotion mapped from \<open>raw\<close>, the confidence \<open>conf\<close> and the four scores in canonical
  order of keys, the i-th canonical label carrying the i-th value of \<open>xs\<close> (0.0 beyond its
  length): the loop of lines 165-169 goes by position and never looks at the raw label.
  For the scenario of the spec, label "hap", score 0.82 and vector
  [0.82, 0.05, 0.08, 0.05], the response is emotion "happy", confidence 0.82 and the
  scores angry 0.82, happy 0.05, neutral 0.08, sad 0.05.
\<close>

theorem scenario_hap_response:
  assumes "read_result rq = Inr contents" and "tempfile_result rq = Inr p"
    and "write_result rq = None" and "unlink_result rq = None"
    and "clf p ((files w)(p \<mapsto> contents)) = Inr (out_prob, score, index, text_lab)"
    and "emotion_raw_of text_lab = Inr raw"
    and "confidence_of score = Inr conf"
    and "scores_array_of out_prob = Inr (Array (map Scalar xs))"
  shows "fst (predict_emotion (Some clf) rq w) =
           Inr \<lparr>emotion = emotion_of (clean_label raw), confidence = conf,
                scores = [(''angry'', if 0 < length xs then xs ! 0 else 0.0),
                          (''happy'', if 1 < length xs then xs ! 1 else 0.0),
                          (''neutral'', if 2 < length xs then xs ! 2 else 0.0),
                          (''sad'', if 3 < length xs then xs ! 3 else 0.0)]\<rparr> \<and>
         (raw = ''hap'' \<and> conf = 0.82 \<and> xs = [0.82, 0.05, 0.08, 0.05] \<longrightarrow>
            fst (predict_emotion (Some clf) rq w) =
              Inr \<lparr>emotion = ''happy'', confidence = 0.82,
                   scores = [(''angry'', 0.82), (''happy'', 0.05),
                             (''neutral'', 0.08), (''sad'', 0.05)]\<rparr>)"
proof -
  have n: "normalize_output (out_prob, score, index, text_lab) =
           Inr \<lparr>emotion = emotion_of (clean_label raw), confidence = conf,
                scores = [(''angry'', if 0 < length xs then xs ! 0 else 0.0),
                          (''happy'', if 1 < length xs then xs ! 1 else 0.0),
                          (''neutral'', if 2 < length xs then xs ! 2 else 0.0),
                          (''sad'', if 3 < length xs then xs ! 3 else 0.0)]\<rparr>"
    using assms(6,7,8) by (simp add: emotion_scores_positional)
  have g: "fst (predict_emotion (Some clf) rq w) =
           Inr \<lparr>emotion = emotion_of (clean_label raw), confidence = conf,
                scores = [(''angry'', if 0 < length xs then xs ! 0 else 0.0),
                          (''happy'', if 1 < length xs then xs ! 1 else 0.0),
                          (''neutral'', if 2 < length xs then xs ! 2 else 0.0),
                          (''sad'', if 3 < length xs then xs ! 3 else 0.0)]\<rparr>"
    using assms(4,5) n
    by (simp add: predict_emotion_reaches[OF assms(1,2,3)] del: normalize_output.simps)
  have l: "emotion_of (clean_label ''hap'') = ''happy''"
    by (simp add: label_eval char_eval)
  show ?thesis
  proof (intro conjI impI)
    show "fst (predict_emotion (Some clf) rq w) =
           Inr \<lparr>emotion = emotion_of (clean_label raw), confidence = conf,
                scores = [(''angry'', if 0 < length xs then xs ! 0 else 0.0),
                          (''happy'', if 1 < length xs then xs ! 1 else 0.0),
                          (''neutral'', if 2 < length xs then xs ! 2 else 0.0),
                          (''sad'', if 3 < length xs then xs ! 3 else 0.0)]\<rparr>"
      by (rule g)
  next
    assume "raw = ''hap'' \<and> conf = 0.82 \<and> xs = [0.82, 0.05, 0.08, 0.05]"
    with g l show "fst (predict_emotion (Some clf) rq w) =
              Inr \<lparr>emotion = ''happy'', confidence = 0.82,
                   scores = [(''angry'', 0.82), (''happy'', 0.05),
                             (''neutral'', 0.08), (''sad'', 0.05)]\<rparr>"
      by simp
  qed
qed

theorem scenario_hap_response_witness:
  "read_result example_request = Inr ''RIFF'' \<and>
   tempfile_result example_request = Inr ''/tmp/tmpab12cd.wav'' \<and>
   write_result example_request = None \<and>
   unlink_result example_request = None \<and>
   emotion_raw_of (PyObject ''hap'') = Inr ''hap'' \<and>
   confidence_of (ScorePlain (Number 0.82)) = Inr 0.82 \<and>
   scores_array_of scenario_out_prob =
     Inr (Array (map Scalar [0.82, 0.05, 0.08, 0.05])) \<and>
   fst (predict_emotion
          (Some (returning_classifier
                   (scenario_out_prob, ScorePlain (Number 0.82), 0, PyObject ''hap'')))
          example_request example_world) =
     Inr \<lparr>emotion = ''happy'', confidence = 0.82,
          scores = [(''angry'', 0.82), (''happy'', 0.05), (''neutral'', 0.08), (''sad'', 0.05)]\<rparr>"
proof -
  have h: "read_result example_request = Inr ''RIFF''"
      "tempfile_result example_request = Inr ''/tmp/tmpab12cd.wav''"
      "write_result example_request = None"
      "unlink_result example_request = None"
    by (simp_all add: example_request_def)
  have c: "returning_classifier
             (scenario_out_prob, ScorePlain (Number 0.82), 0, PyObject ''hap'')
             ''/tmp/tmpab12cd.wav'' ((files example_world)(''/tmp/tmpab12cd.wav'' \<mapsto> ''RIFF'')) =
           Inr (scenario_out_prob, ScorePlain (Number 0.82), 0, PyObject ''hap'')"
    by (simp add: returning_classifier_def)
  have e: "emotion_raw_of (PyObject ''hap'') = Inr ''hap''"
      "confidence_of (ScorePlain (Number 0.82)) = Inr 0.82"
      "scores_array_of scenario_out_prob = Inr (Array (map Scalar [0.82, 0.05, 0.08, 0.05]))"
    by (simp_all add: scenario_out_prob_def)
  from scenario_hap_response
         [of example_request "''RIFF''" "''/tmp/tmpab12cd.wav''"
             "returning_classifier
                (scenario_out_prob, ScorePlain (Number 0.82), 0, PyObject ''hap'')"
             example_world scenario_out_prob "ScorePlain (Number 0.82)" 0 "PyObject ''hap''"
             "''hap''" "0.82" "[0.82, 0.05, 0.08, 0.05]", OF h c e]
       h e
  show ?thesis
    by (simp del: emotion_raw_of.simps confidence_of.simps)
       (simp add: label_eval char_eval)
qed

text \<open>The response the claim states, with 0.82 under "happy", is not what the handler
  returns for that output, whether the vector comes as a tensor or as a plain list (which
  has no \<^verbatim>\<open>numpy\<close> attribute, so that the uniform fallback is taken).\<close>

theorem scenario_hap_counterexample:
  "fst (predict_emotion
          (Some (returning_classifier
                   (scenario_out_prob, ScorePlain (Number 0.82), 0, PyObject ''hap'')))
          example_request example_world) \<noteq>
     Inr \<lparr>emotion = ''happy'', confidence = 0.82,
          scores = [(''angry'', 0.05), (''happy'', 0.82), (''neutral'', 0.08), (''sad'', 0.05)]\<rparr> \<and>
   fst (predict_emotion
          (Some (returning_classifier
                   (NoArray, ScorePlain (Number 0.82), 0, PyObject ''hap'')))
          example_request example_world) \<noteq>
     Inr \<lparr>emotion = ''happy'', confidence = 0.82,
          scores = [(''angry'', 0.05), (''happy'', 0.82), (''neutral'', 0.08), (''sad'', 0.05)]\<rparr>"
  by (simp add: handler_defs fixture_defs emotion_scores_of_def label_eval char_eval)

subsection \<open>The emotion of a response\<close>

text \<open>
  Claim C3, as the code has it. Whatever the classifier emits as raw label, the emotion
  of a predict response is one of angry, happy, neutral, sad. In particular, when the
  raw label, once stripped of surrounding white space, brackets and quotes (line 123),
  is not a canonical label and its lower-case form is not a key of the short-code table,
  as for "xyz", the emotion is "neutral".
\<close>

theorem emotion_always_canonical:
  "(fst (predict_emotion classifier rq w) = Inr r \<longrightarrow>
      emotion r \<in> {''angry'', ''happy'', ''neutral'', ''sad''}) \<and>
   (normalize_output (out_prob, score, index, text_lab) = Inr r' \<and>
    emotion_raw_of text_lab = Inr raw \<and>
    clean_label raw \<notin> set EMOTION_LABELS \<and>
    py_lower (clean_label raw) \<notin> fst ` set emotion_mapping \<longrightarrow>
      emotion r' = ''neutral'')"
proof (intro conjI impI)
  assume "fst (predict_emotion classifier rq w) = Inr r"
  then have "predict_emotion classifier rq w = (Inr r, snd (predict_emotion classifier rq w))"
    by (metis prod.collapse)
  then obtain out where "normalize_output out = Inr r"
    using predict_emotion_Inr by blast
  then obtain raw0 where "emotion r = emotion_of (clean_label raw0)"
    using normalize_output_Inr by (cases out) blast
  then have "emotion r \<in> set EMOTION_LABELS"
    by (simp add: emotion_of_canonical)
  then show "emotion r \<in> {''angry'', ''happy'', ''neutral'', ''sad''}"
    by (simp add: EMOTION_LABELS_def)
next
  assume a: "normalize_output (out_prob, score, index, text_lab) = Inr r' \<and>
    emotion_raw_of text_lab = Inr raw \<and>
    clean_label raw \<notin> set EMOTION_LABELS \<and>
    py_lower (clean_label raw) \<notin> fst ` set emotion_mapping"
  then obtain raw0 where "emotion_raw_of text_lab = Inr raw0"
      and "emotion r' = emotion_of (clean_label raw0)"
    using normalize_output_Inr by blast
  with a have "emotion r' = emotion_of (clean_label raw)" by simp
  with a show "emotion r' = ''neutral''"
    by (simp add: emotion_of_unmatched)
qed

theorem emotion_always_canonical_witness:
  "fst (predict_emotion
          (Some (returning_classifier
                   (scenario_out_prob, ScorePlain (Number 0.82), 0, PyObject ''xyz'')))
          example_request example_world) =
     Inr \<lparr>emotion = ''neutral'', confidence = 0.82,
          scores = [(''angry'', 0.82), (''happy'', 0.05), (''neutral'', 0.08), (''sad'', 0.05)]\<rparr> \<and>
   normalize_output (scenario_out_prob, ScorePlain (Number 0.82), 0, PyObject ''xyz'') =
     Inr \<lparr>emotion = ''neutral'', confidence = 0.82,
          scores = [(''angry'', 0.82), (''happy'', 0.05), (''neutral'', 0.08), (''sad'', 0.05)]\<rparr> \<and>
   emotion_raw_of (PyObject ''xyz'') = Inr ''xyz'' \<and>
   clean_label ''xyz'' \<notin> set EMOTION_LABELS \<and>
   py_lower (clean_label ''xyz'') \<notin> fst ` set emotion_mapping \<and>
   ''neutral'' \<in> {''angry'', ''happy'', ''neutral'', ''sad''}"
proof -
  let ?out = "(scenario_out_prob, ScorePlain (Number 0.82), 0::int, PyObject ''xyz'')"
  let ?r = "\<lparr>emotion = ''neutral'', confidence = 0.82,
          scores = [(''angry'', 0.82), (''happy'', 0.05), (''neutral'', 0.08), (''sad'', 0.05)]\<rparr>"
  have c: "clean_label ''xyz'' = ''xyz''"
    by (simp add: label_eval char_eval)
  have n: "normalize_output ?out = Inr ?r"
    by (simp add: fixture_defs emotion_scores_of_def c) (simp add: label_eval char_eval)
  have p: "fst (predict_emotion (Some (returning_classifier ?out))
                  example_request example_world) = Inr ?r"
    by (simp add: handler_defs fixture_defs emotion_scores_of_def c)
       (simp add: label_eval char_eval)
  have h1: "clean_label ''xyz'' \<notin> set EMOTION_LABELS"
    by (simp add: c) (simp add: EMOTION_LABELS_def)
  have h2: "py_lower (clean_label ''xyz'') \<notin> fst ` set emotion_mapping"
    by (simp add: c) (simp add: emotion_mapping_def py_lower_def char_eval)
  from emotion_always_canonical
     [of "Some (returning_classifier ?out)" example_request example_world ?r
         scenario_out_prob "ScorePlain (Number 0.82)" 0 "PyObject ''xyz''" ?r "''xyz''"]
  show ?thesis using p n h1 h2 by simp
qed

text \<open>The raw labels "HAP" and " hap" are neither canonical labels nor keys of the
  short-code table, and the response to each has the emotion "happy", not "neutral":
  the handler strips the label (line 123) and looks its lower-case form up (line 142).\<close>

theorem unrecognized_label_counterexample:
  "''HAP'' \<notin> set EMOTION_LABELS \<and> ''HAP'' \<notin> fst ` set emotion_mapping \<and>
   fst (predict_emotion
          (Some (returning_classifier
                   (scenario_out_prob, ScorePlain (Number 0.82), 0, PyObject ''HAP'')))
          example_request example_world) =
     Inr \<lparr>emotion = ''happy'', confidence = 0.82,
          scores = [(''angry'', 0.82), (''happy'', 0.05), (''neutral'', 0.08), (''sad'', 0.05)]\<rparr> \<and>
   '' hap'' \<notin> set EMOTION_LABELS \<and> '' hap'' \<notin> fst ` set emotion_mapping \<and>
   fst (predict_emotion
          (Some (returning_classifier
                   (scenario_out_prob, ScorePlain (Number 0.82), 0, PyObject '' hap'')))
          example_request example_world) =
     Inr \<lparr>emotion = ''happy'', confidence = 0.82,
          scores = [(''angry'', 0.82), (''happy'', 0.05), (''neutral'', 0.08), (''sad'', 0.05)]\<rparr>"
  by (simp add: handler_defs fixture_defs emotion_scores_of_def label_eval char_eval)

subsection \<open>Case of the raw label\<close>

text \<open>
  Claim C9. The test against the canonical labels (line 139) compares the stripped label
  as it is, and a miss in the table gives back the label as it is, not its lower-case
  form (line 142). So a canonical label written in another case, whose lower-case form
  is not a key of the table, ends as "neutral": "HAPPY", "Angry", "Neutral". Every
  spelling whose lower-case form is "sad" gives "sad", since "sad" is a key of the table.
\<close>

theorem case_sensitive_match:
  "(py_lower s \<notin> fst ` set emotion_mapping \<longrightarrow>
      dict_get emotion_mapping (py_lower s) s = s) \<and>
   (s \<notin> set EMOTION_LABELS \<and> py_lower s \<in> set EMOTION_LABELS \<and>
    py_lower s \<notin> fst ` set emotion_mapping \<longrightarrow> emotion_of s = ''neutral'') \<and>
   (py_lower s' = ''sad'' \<longrightarrow> emotion_of s' = ''sad'') \<and>
   emotion_of ''HAPPY'' = ''neutral'' \<and> emotion_of ''Angry'' = ''neutral'' \<and>
   emotion_of ''Neutral'' = ''neutral'' \<and> emotion_of ''SAD'' = ''sad''"
proof (intro conjI impI)
  assume "py_lower s \<notin> fst ` set emotion_mapping"
  then have "map_of emotion_mapping (py_lower s) = None"
    by (simp only: map_of_eq_None_iff not_False_eq_True)
  then show "dict_get emotion_mapping (py_lower s) s = s"
    by (simp add: dict_get_def)
next
  assume "s \<notin> set EMOTION_LABELS \<and> py_lower s \<in> set EMOTION_LABELS \<and>
    py_lower s \<notin> fst ` set emotion_mapping"
  then show "emotion_of s = ''neutral''"
    by (simp add: emotion_of_unmatched)
next
  assume "py_lower s' = ''sad''"
  then show "emotion_of s' = ''sad''"
    by (auto simp add: emotion_of_def EMOTION_LABELS_def emotion_mapping_def dict_get_def
          Let_def py_lower_def char_eval)
qed (simp_all add: label_eval char_eval)

theorem case_sensitive_match_witness:
  "py_lower ''HAPPY'' \<notin> fst ` set emotion_mapping \<and>
   dict_get emotion_mapping (py_lower ''HAPPY'') ''HAPPY'' = ''HAPPY'' \<and>
   ''HAPPY'' \<notin> set EMOTION_LABELS \<and> py_lower ''HAPPY'' \<in> set EMOTION_LABELS \<and>
   emotion_of ''HAPPY'' = ''neutral'' \<and>
   py_lower ''sAd'' = ''sad'' \<and> emotion_of ''sAd'' = ''sad''"
proof -
  have l: "py_lower ''HAPPY'' = ''happy''" "py_lower ''sAd'' = ''sad''"
    by (simp_all add: py_lower_def char_eval)
  have h: "py_lower ''HAPPY'' \<notin> fst ` set emotion_mapping"
      "''HAPPY'' \<notin> set EMOTION_LABELS" "py_lower ''HAPPY'' \<in> set EMOTION_LABELS"
    by (simp_all add: l) (simp_all add: emotion_mapping_def EMOTION_LABELS_def)
  from case_sensitive_match[of "''HAPPY''" "''sAd''"] h l(2)
  show ?thesis by simp
qed

subsection \<open>An empty sequence as raw label\<close>

text \<open>
  Claim C10. When the raw label is an empty list or an empty tuple, reading it does not
  raise: line 118 takes 'neutral' in its place. The label then contributes no exception
  to the call: with a score and a score vector that convert, the normalised output is a
  prediction whose emotion is "neutral", and every response of a predict call whose
  classifier returned such a label has the emotion "neutral".
\<close>

theorem empty_sequence_label:
  "emotion_raw_of (PyList []) = Inr ''neutral'' \<and>
   emotion_raw_of (PyTuple []) = Inr ''neutral'' \<and>
   (text_lab \<in> {PyList [], PyTuple []} \<and>
    confidence_of score = Inr conf \<and> scores_array_of out_prob = Inr scores_array \<and>
    emotion_scores_of scores_array = Inr emotion_scores \<longrightarrow>
      normalize_output (out_prob, score, index, text_lab) =
        Inr \<lparr>emotion = ''neutral'', confidence = conf, scores = emotion_scores\<rparr>) \<and>
   (text_lab \<in> {PyList [], PyTuple []} \<and>
    fst (predict_emotion (Some clf) rq w) = Inr r \<and>
    read_result rq = Inr contents \<and> tempfile_result rq = Inr p \<and>
    clf p ((files w)(p \<mapsto> contents)) = Inr (out_prob, score, index, text_lab) \<longrightarrow>
      emotion r = ''neutral'')"
proof -
  have l: "emotion_of (clean_label ''neutral'') = ''neutral''"
    by (simp add: label_eval char_eval)
  have e: "text_lab \<in> {PyList [], PyTuple []} \<Longrightarrow> emotion_raw_of text_lab = Inr ''neutral''"
    by auto
  have "emotion r = ''neutral''"
    if t: "text_lab \<in> {PyList [], PyTuple []}"
      and s: "fst (predict_emotion (Some clf) rq w) = Inr r"
      and q: "read_result rq = Inr contents" "tempfile_result rq = Inr p"
      and c: "clf p ((files w)(p \<mapsto> contents)) = Inr (out_prob, score, index, text_lab)"
  proof -
    from s have "predict_emotion (Some clf) rq w = (Inr r, snd (predict_emotion (Some clf) rq w))"
      by (metis prod.collapse)
    then obtain clf' contents' p' out where o: "Some clf = Some clf'"
      "read_result rq = Inr contents'" "tempfile_result rq = Inr p'"
      "clf' p' ((files w)(p' \<mapsto> contents')) = Inr out" "normalize_output out = Inr r"
      using predict_emotion_Inr by blast
    with q c have "normalize_output (out_prob, score, index, text_lab) = Inr r"
      by simp
    then obtain raw where "emotion_raw_of text_lab = Inr raw"
        "emotion r = emotion_of (clean_label raw)"
      using normalize_output_Inr by blast
    with e[OF t] l show ?thesis by simp
  qed
  then show ?thesis
    using l by (auto simp del: insert_iff simp add: e)
qed

theorem empty_sequence_label_witness:
  "PyList [] \<in> {PyList [], PyTuple []} \<and>
   confidence_of (ScorePlain (Number 0.82)) = Inr 0.82 \<and>
   scores_array_of NoArray = Inr (Array (replicate (length EMOTION_LABELS) (Scalar 0.25))) \<and>
   normalize_output (NoArray, ScorePlain (Number 0.82), 0, PyList []) =
     Inr \<lparr>emotion = ''neutral'', confidence = 0.82,
          scores = [(''angry'', 0.25), (''happy'', 0.25), (''neutral'', 0.25), (''sad'', 0.25)]\<rparr> \<and>
   fst (predict_emotion
          (Some (returning_classifier (NoArray, ScorePlain (Number 0.82), 0, PyList [])))
          example_request example_world) =
     Inr \<lparr>emotion = ''neutral'', confidence = 0.82,
          scores = [(''angry'', 0.25), (''happy'', 0.25), (''neutral'', 0.25), (''sad'', 0.25)]\<rparr>"
proof -
  let ?d = "[(''angry'', 0.25), (''happy'', 0.25), (''neutral'', 0.25), (''sad'', 0.25::real)]"
  have n: "normalize_output (NoArray, ScorePlain (Number 0.82), 0, PyList []) =
     Inr \<lparr>emotion = ''neutral'', confidence = 0.82, scores = ?d\<rparr>"
    using empty_sequence_label
            [of "PyList []" "ScorePlain (Number 0.82)" "0.82" NoArray
                "Array (replicate (length EMOTION_LABELS) (Scalar 0.25))" ?d 0]
          emotion_scores_uniform
    by simp
  have p: "fst (predict_emotion
          (Some (returning_classifier (NoArray, ScorePlain (Number 0.82), 0, PyList [])))
          example_request example_world) =
     Inr \<lparr>emotion = ''neutral'', confidence = 0.82, scores = ?d\<rparr>"
    by (simp add: handler_defs fixture_defs emotion_scores_of_def label_eval char_eval
          numeral_eq_Suc)
  from n p show ?thesis by simp
qed

subsection \<open>The scores of a response\<close>

text \<open>
  Claim C5. The scores of a successful predict response have exactly the keys angry,
  happy, neutral, sad, in that order, whatever the classifier returned. A label whose
  index is not below the length of the score vector has the value 0.0. When the score
  vector is neither an object with a \<^verbatim>\<open>numpy\<close> attribute nor a tensor, all four values
  are 0.25.
\<close>

theorem scores_mapping_shape:
  "(fst (predict_emotion classifier rq w) = Inr r \<longrightarrow>
      map fst (scores r) = [''angry'', ''happy'', ''neutral'', ''sad'']) \<and>
   (normalize_output (out_prob, score, index, text_lab) = Inr r' \<longrightarrow>
      map fst (scores r') = [''angry'', ''happy'', ''neutral'', ''sad''] \<and>
      (scores_array_of out_prob = Inr a \<and> np_len a = Inr n \<and> n \<le> i \<and> i < 4 \<longrightarrow>
         map_of (scores r') (EMOTION_LABELS ! i) = Some 0.0) \<and>
      (out_prob = NoArray \<longrightarrow>
         scores r' = [(''angry'', 0.25), (''happy'', 0.25), (''neutral'', 0.25), (''sad'', 0.25)]))"
proof (intro conjI impI)
  assume "fst (predict_emotion classifier rq w) = Inr r"
  then have "predict_emotion classifier rq w = (Inr r, snd (predict_emotion classifier rq w))"
    by (metis prod.collapse)
  then obtain out where "normalize_output out = Inr r"
    using predict_emotion_Inr by blast
  then obtain a0 where "emotion_scores_of a0 = Inr (scores r)"
    using normalize_output_Inr by (cases out) blast
  then show "map fst (scores r) = [''angry'', ''happy'', ''neutral'', ''sad'']"
    by (rule emotion_scores_keys)
next
  assume n: "normalize_output (out_prob, score, index, text_lab) = Inr r'"
  then obtain a0 where a0: "scores_array_of out_prob = Inr a0"
      "emotion_scores_of a0 = Inr (scores r')"
    using normalize_output_Inr by blast
  from a0(2) show "map fst (scores r') = [''angry'', ''happy'', ''neutral'', ''sad'']"
    by (rule emotion_scores_keys)
  {
    assume "scores_array_of out_prob = Inr a \<and> np_len a = Inr n \<and> n \<le> i \<and> i < 4"
    with a0 have "emotion_scores_of a = Inr (scores r')" "np_len a = Inr n" "n \<le> i" "i < 4"
      by simp_all
    then show "map_of (scores r') (EMOTION_LABELS ! i) = Some 0.0"
      by (simp add: emotion_scores_default)
  }
  {
    assume "out_prob = NoArray"
    with a0 have "emotion_scores_of (Array (replicate (length EMOTION_LABELS) (Scalar 0.25)))
                    = Inr (scores r')"
      by auto
    with emotion_scores_uniform
    show "scores r' = [(''angry'', 0.25), (''happy'', 0.25), (''neutral'', 0.25), (''sad'', 0.25)]"
      by (metis sum.inject(2))
  }
qed

theorem scores_mapping_shape_witness:
  "fst (predict_emotion
          (Some (returning_classifier
                   (HasNumpy (Inr (Array [Scalar 0.7, Scalar 0.3])),
                    ScorePlain (Number 0.7), 0, PyObject ''ang'')))
          example_request example_world) =
     Inr \<lparr>emotion = ''angry'', confidence = 0.7,
          scores = [(''angry'', 0.7), (''happy'', 0.3), (''neutral'', 0), (''sad'', 0)]\<rparr> \<and>
   normalize_output (HasNumpy (Inr (Array [Scalar 0.7, Scalar 0.3])),
                     ScorePlain (Number 0.7), 0, PyObject ''ang'') =
     Inr \<lparr>emotion = ''angry'', confidence = 0.7,
          scores = [(''angry'', 0.7), (''happy'', 0.3), (''neutral'', 0), (''sad'', 0)]\<rparr> \<and>
   scores_array_of (HasNumpy (Inr (Array [Scalar 0.7, Scalar 0.3]))) =
     Inr (Array [Scalar 0.7, Scalar 0.3]) \<and>
   np_len (Array [Scalar 0.7, Scalar 0.3]) = Inr 2 \<and>
   map_of [(''angry'', 0.7), (''happy'', 0.3), (''neutral'', 0), (''sad'', 0::real)]
     (EMOTION_LABELS ! 3) = Some 0 \<and>
   normalize_output (NoArray, ScorePlain (Number 0.7), 0, PyObject ''ang'') =
     Inr \<lparr>emotion = ''angry'', confidence = 0.7,
          scores = [(''angry'', 0.25), (''happy'', 0.25), (''neutral'', 0.25), (''sad'', 0.25)]\<rparr>"
proof -
  let ?op = "HasNumpy (Inr (Array [Scalar 0.7, Scalar 0.3]))"
  let ?r = "\<lparr>emotion = ''angry'', confidence = 0.7,
          scores = [(''angry'', 0.7), (''happy'', 0.3), (''neutral'', 0), (''sad'', 0)]\<rparr>"
  let ?u = "\<lparr>emotion = ''angry'', confidence = 0.7,
          scores = [(''angry'', 0.25), (''happy'', 0.25), (''neutral'', 0.25), (''sad'', 0.25)]\<rparr>"
  have l: "emotion_of (clean_label ''ang'') = ''angry''"
    by (simp add: label_eval char_eval)
  have n: "normalize_output (?op, ScorePlain (Number 0.7), 0, PyObject ''ang'') = Inr ?r"
    by (simp add: emotion_scores_of_def EMOTION_LABELS_def l)
  have u: "normalize_output (NoArray, ScorePlain (Number 0.7), 0, PyObject ''ang'') = Inr ?u"
    by (simp add: emotion_scores_of_def EMOTION_LABELS_def l numeral_eq_Suc)
  have p: "fst (predict_emotion
          (Some (returning_classifier (?op, ScorePlain (Number 0.7), 0, PyObject ''ang'')))
          example_request example_world) = Inr ?r"
    by (simp add: handler_defs fixture_defs emotion_scores_of_def EMOTION_LABELS_def l)
  have a: "scores_array_of ?op = Inr (Array [Scalar 0.7, Scalar 0.3])"
    "np_len (Array [Scalar 0.7, Scalar 0.3]) = Inr 2"
    by simp_all
  from scores_mapping_shape
         [of "Some (returning_classifier (?op, ScorePlain (Number 0.7), 0, PyObject ''ang''))"
             example_request example_world ?r ?op "ScorePlain (Number 0.7)" 0 "PyObject ''ang''"
             ?r "Array [Scalar 0.7, Scalar 0.3]" 2 3]
       p n a
  have "map_of (scores ?r) (EMOTION_LABELS ! 3) = Some 0"
    by simp
  with p n u a show ?thesis by simp
qed

subsection \<open>The confidence of a response\<close>

text \<open>
  What lines 149-152 do with the score: the confidence of a successful response is the
  top score the classifier returned, converted by \<^verbatim>\<open>float()\<close> and otherwise unchanged.
  The score is, directly or behind \<^verbatim>\<open>item()\<close>, the very number that the response
  carries; the handler neither checks nor clamps it.
\<close>

lemma confidence_is_top_score:
  assumes "fst (predict_emotion classifier rq w) = Inr r"
  shows "\<exists>clf contents p out_prob score index text_lab.
           classifier = Some clf \<and> read_result rq = Inr contents \<and>
           tempfile_result rq = Inr p \<and>
           clf p ((files w)(p \<mapsto> contents)) = Inr (out_prob, score, index, text_lab) \<and>
           (score = ScorePlain (Number (confidence r)) \<or>
            score = ScoreItem (Inr (Number (confidence r))))"
proof -
  from assms
  have "predict_emotion classifier rq w = (Inr r, snd (predict_emotion classifier rq w))"
    by (metis prod.collapse)
  then obtain clf contents p out where o: "classifier = Some clf"
      "read_result rq = Inr contents" "tempfile_result rq = Inr p"
      "clf p ((files w)(p \<mapsto> contents)) = Inr out" "normalize_output out = Inr r"
    using predict_emotion_Inr by blast
  obtain out_prob score index text_lab where out: "out = (out_prob, score, index, text_lab)"
    by (cases out) auto
  with o(5) have c: "confidence_of score = Inr (confidence r)"
    using normalize_output_Inr by blast
  have "score = ScorePlain (Number (confidence r)) \<or>
        score = ScoreItem (Inr (Number (confidence r)))"
  proof (cases score)
    case (ScoreItem x)
    with c show ?thesis
      by (cases x; cases "projr x") auto
  next
    case (ScorePlain v)
    with c show ?thesis by (cases v) auto
  qed
  with o out show ?thesis by blast
qed

text \<open>
  Claim C8. The confidence of a successful predict response is to be a float in [0, 1],
  as the handler's docstring promises ("confidence: confidence score (0-1)", line 90).
  The handler does not keep to it: when the classifier's top score is 1.5, be it a plain
  float or behind \<^verbatim>\<open>item()\<close>, the call succeeds and its response carries the confidence
  1.5, which is above 1; with the top score -0.5 it carries -0.5, which is below 0.
\<close>

theorem confidence_out_of_range:
  "fst (predict_emotion
          (Some (returning_classifier
                   (scenario_out_prob, ScorePlain (Number 1.5), 0, PyObject ''hap'')))
          example_request example_world) =
     Inr \<lparr>emotion = ''happy'', confidence = 1.5,
          scores = [(''angry'', 0.82), (''happy'', 0.05), (''neutral'', 0.08), (''sad'', 0.05)]\<rparr> \<and>
   fst (predict_emotion
          (Some (returning_classifier
                   (scenario_out_prob, ScoreItem (Inr (Number 1.5)), 0, PyObject ''hap'')))
          example_request example_world) =
     Inr \<lparr>emotion = ''happy'', confidence = 1.5,
          scores = [(''angry'', 0.82), (''happy'', 0.05), (''neutral'', 0.08), (''sad'', 0.05)]\<rparr> \<and>
   fst (predict_emotion
          (Some (returning_classifier
                   (scenario_out_prob, ScorePlain (Number (- 0.5)), 0, PyObject ''hap'')))
          example_request example_world) =
     Inr \<lparr>emotion = ''happy'', confidence = - 0.5,
          scores = [(''angry'', 0.82), (''happy'', 0.05), (''neutral'', 0.08), (''sad'', 0.05)]\<rparr> \<and>
   \<not> (1.5::real) \<le> 1 \<and> \<not> (0::real) \<le> - 0.5"
  by (simp add: handler_defs fixture_defs emotion_scores_of_def label_eval char_eval)

subsection \<open>The temp file\<close>

text \<open>
  Claim C2, as the code has it. In every predict call that reaches the inference step,
  \<^verbatim>\<open>os.unlink\<close> is called on the temp file, once and last, whether classification and
  normalisation return or raise. When the unlink goes through, the file exists no more
  and the call ends as classification and normalisation ended (their prediction, or
  their exception as the \<^verbatim>\<open>except\<close> clauses turn it). When the unlink raises, its
  exception takes the place of that outcome, an exception of the inference included.
\<close>

theorem temp_file_cleanup:
  assumes "read_result rq = Inr contents" and "tempfile_result rq = Inr temp_path"
    and "write_result rq = None"
  shows "events (snd (predict_emotion (Some clf) rq w)) =
           events w @ [ReadUpload, OpenTemp, WriteTemp temp_path,
                       ClassifyFile temp_path, Unlink temp_path] \<and>
         (unlink_result rq = None \<longrightarrow>
            temp_path \<notin> dom (files (snd (predict_emotion (Some clf) rq w))) \<and>
            fst (predict_emotion (Some clf) rq w) =
              except_clauses
                (case clf temp_path ((files w)(temp_path \<mapsto> contents)) of
                   Inl e \<Rightarrow> Inl e
                 | Inr out \<Rightarrow> normalize_output out)) \<and>
         (unlink_result rq = Some e \<longrightarrow>
            fst (predict_emotion (Some clf) rq w) = except_clauses (Inl e))"
  by (simp add: predict_emotion_reaches[OF assms] del: normalize_output.simps)

theorem temp_file_cleanup_witness:
  "read_result example_request = Inr ''RIFF'' \<and>
   tempfile_result example_request = Inr ''/tmp/tmpab12cd.wav'' \<and>
   write_result example_request = None \<and>
   unlink_result example_request = None \<and>
   events (snd (predict_emotion (Some raising_classifier) example_request example_world)) =
     [ReadUpload, OpenTemp, WriteTemp ''/tmp/tmpab12cd.wav'',
      ClassifyFile ''/tmp/tmpab12cd.wav'', Unlink ''/tmp/tmpab12cd.wav''] \<and>
   ''/tmp/tmpab12cd.wav'' \<notin>
     dom (files (snd (predict_emotion (Some raising_classifier) example_request example_world))) \<and>
   fst (predict_emotion (Some raising_classifier) example_request example_world) =
     Inl (HTTPException 500 ''Prediction failed: boom'') \<and>
   unlink_result unlink_denied_request = Some (PyException
     (''[Errno 13] Permission denied: '/tmp/tmpab12cd.wav'' @ [CHR 0x27])) \<and>
   fst (predict_emotion (Some raising_classifier) unlink_denied_request example_world) =
     Inl (HTTPException 500
            (''Prediction failed: [Errno 13] Permission denied: '/tmp/tmpab12cd.wav'' @
             [CHR 0x27]))"
proof -
  have h: "read_result example_request = Inr ''RIFF''"
      "tempfile_result example_request = Inr ''/tmp/tmpab12cd.wav''"
      "write_result example_request = None"
    by (simp_all add: example_request_def)
  have u: "unlink_result example_request = None"
    by (simp add: example_request_def)
  have h': "read_result unlink_denied_request = Inr ''RIFF''"
      "tempfile_result unlink_denied_request = Inr ''/tmp/tmpab12cd.wav''"
      "write_result unlink_denied_request = None"
    by (simp_all add: unlink_denied_request_def example_request_def)
  have u': "unlink_result unlink_denied_request = Some (PyException
     (''[Errno 13] Permission denied: '/tmp/tmpab12cd.wav'' @ [CHR 0x27]))"
    by (simp add: unlink_denied_request_def)
  from temp_file_cleanup[OF h, of raising_classifier example_world]
       temp_file_cleanup[OF h', of raising_classifier example_world
         "PyException (''[Errno 13] Permission denied: '/tmp/tmpab12cd.wav'' @ [CHR 0x27])"]
       u u' h
  show ?thesis
    by (simp add: raising_classifier_def example_world_def)
qed

text \<open>The classifier raises \<^verbatim>\<open>RuntimeError("boom")\<close> and the unlink raises
  \<^verbatim>\<open>PermissionError\<close>: the response reports the error of the unlink and says nothing of
  "boom", and the temp file is still there after the call.\<close>

theorem cleanup_masks_counterexample:
  "fst (predict_emotion (Some raising_classifier) unlink_denied_request example_world) =
     Inl (HTTPException 500
            (''Prediction failed: [Errno 13] Permission denied: '/tmp/tmpab12cd.wav'' @
             [CHR 0x27])) \<and>
   ''/tmp/tmpab12cd.wav'' \<in>
     dom (files (snd (predict_emotion (Some raising_classifier)
                        unlink_denied_request example_world)))"
  by (simp add: handler_defs fixture_defs)

subsection \<open>Processing failures\<close>

text \<open>
  Claim C7, as the code has it. With the handle set, when the upload read, the inference
  or the normalisation raises an exception that is an instance of \<^verbatim>\<open>Exception\<close>, other
  than an \<open>HTTPException\<close>, and (once the inference step was reached) the unlink of the
  temp file does not raise in its turn, the handler raises the \<open>HTTPException\<close> of status
  500 whose detail is "Prediction failed: " followed by \<^verbatim>\<open>str()\<close> of that exception.
\<close>

theorem processing_failure_500:
  "prefix ''Prediction failed'' (''Prediction failed: '' @ str_e) \<and>
   (read_result rq = Inl (PyException str_e) \<longrightarrow>
      fst (predict_emotion (Some clf) rq w) =
        Inl (HTTPException 500 (''Prediction failed: '' @ str_e))) \<and>
   (read_result rq = Inr contents \<and> tempfile_result rq = Inr temp_path \<and>
    write_result rq = None \<and> unlink_result rq = None \<and>
    (clf temp_path ((files w)(temp_path \<mapsto> contents)) = Inl (PyException str_e) \<or>
     (\<exists>out. clf temp_path ((files w)(temp_path \<mapsto> contents)) = Inr out \<and>
            normalize_output out = Inl (PyException str_e))) \<longrightarrow>
      fst (predict_emotion (Some clf) rq w) =
        Inl (HTTPException 500 (''Prediction failed: '' @ str_e)))"
proof (intro conjI impI)
  show "prefix ''Prediction failed'' (''Prediction failed: '' @ str_e)"
    by simp
next
  assume "read_result rq = Inl (PyException str_e)"
  then show "fst (predict_emotion (Some clf) rq w) =
        Inl (HTTPException 500 (''Prediction failed: '' @ str_e))"
    by (simp add: predict_emotion_def predict_try_def Let_def)
next
  assume a: "read_result rq = Inr contents \<and> tempfile_result rq = Inr temp_path \<and>
    write_result rq = None \<and> unlink_result rq = None \<and>
    (clf temp_path ((files w)(temp_path \<mapsto> contents)) = Inl (PyException str_e) \<or>
     (\<exists>out. clf temp_path ((files w)(temp_path \<mapsto> contents)) = Inr out \<and>
            normalize_output out = Inl (PyException str_e)))"
  then have r: "predict_emotion (Some clf) rq w =
     (except_clauses
        (case clf temp_path ((files w)(temp_path \<mapsto> contents)) of
                      Inl e \<Rightarrow> Inl e
                    | Inr out \<Rightarrow> normalize_output out),
      \<lparr>files = (files w)(temp_path := None),
       events = events w @
         [ReadUpload, OpenTemp, WriteTemp temp_path, ClassifyFile temp_path, Unlink temp_path]\<rparr>)"
    using predict_emotion_reaches[of rq contents temp_path clf w] by simp
  from a show "fst (predict_emotion (Some clf) rq w) =
        Inl (HTTPException 500 (''Prediction failed: '' @ str_e))"
    unfolding r by (auto simp del: normalize_output.simps)
qed

theorem processing_failure_500_witness:
  "read_result example_request = Inr ''RIFF'' \<and>
   tempfile_result example_request = Inr ''/tmp/tmpab12cd.wav'' \<and>
   write_result example_request = None \<and>
   unlink_result example_request = None \<and>
   raising_classifier ''/tmp/tmpab12cd.wav''
     ((files example_world)(''/tmp/tmpab12cd.wav'' \<mapsto> ''RIFF'')) = Inl (PyException ''boom'') \<and>
   fst (predict_emotion (Some raising_classifier) example_request example_world) =
     Inl (HTTPException 500 ''Prediction failed: boom'') \<and>
   prefix ''Prediction failed'' ''Prediction failed: boom'' \<and>
   read_result (example_request\<lparr>read_result := Inl (PyException ''boom'')\<rparr>) =
     Inl (PyException ''boom'') \<and>
   fst (predict_emotion (Some raising_classifier)
          (example_request\<lparr>read_result := Inl (PyException ''boom'')\<rparr>) example_world) =
     Inl (HTTPException 500 ''Prediction failed: boom'')"
proof -
  have h: "read_result example_request = Inr ''RIFF''"
      "tempfile_result example_request = Inr ''/tmp/tmpab12cd.wav''"
      "write_result example_request = None"
      "unlink_result example_request = None"
    by (simp_all add: example_request_def)
  have c: "raising_classifier ''/tmp/tmpab12cd.wav''
     ((files example_world)(''/tmp/tmpab12cd.wav'' \<mapsto> ''RIFF'')) = Inl (PyException ''boom'')"
    by (simp add: raising_classifier_def)
  from processing_failure_500
         [of "''boom''" example_request raising_classifier example_world
             "''RIFF''" "''/tmp/tmpab12cd.wav''"]
       processing_failure_500
         [of "''boom''" "example_request\<lparr>read_result := Inl (PyException ''boom'')\<rparr>"
             raising_classifier example_world]
       h c
  show ?thesis by simp
qed

text \<open>Two calls that do not end as the claim says. The classifier raises
  \<^verbatim>\<open>RuntimeError("boom")\<close> and the unlink then raises \<^verbatim>\<open>PermissionError\<close>: the detail is not
  "Prediction failed: boom". The upload read is cancelled (\<^verbatim>\<open>asyncio.CancelledError\<close> is
  not an \<^verbatim>\<open>Exception\<close>): the exception leaves the handler as it is, and there is no 500.\<close>

theorem processing_failure_counterexample:
  "fst (predict_emotion (Some raising_classifier) unlink_denied_request example_world) \<noteq>
     Inl (HTTPException 500 ''Prediction failed: boom'') \<and>
   fst (predict_emotion (Some raising_classifier) cancelled_request example_world) =
     Inl (PyBaseException ''CancelledError'')"
  by (simp add: handler_defs fixture_defs)

end
